theory Spec2Isabelle
  imports Main
begin

section \<open>Python values and builtins used by climate.py\<close>

text \<open>
  The exceptions the module can raise, as values. \<open>Exception\<close> is the bare exception of
  \<open>ZoneState.from_id\<close>; \<open>KeyError\<close> is a failed dict lookup; \<open>ValueError\<close> is what the
  builtin \<open>int\<close> raises on a string that is no integer literal; \<open>AssertionError\<close> is the
  \<open>assert False\<close> of \<open>mode_received\<close>; \<open>TypeError\<close> is what calling the constant
  \<open>NotImplemented\<close> raises in \<open>async_set_hvac_mode\<close>; \<open>HomeAssistantError\<close> is the failure
  of the MQTT client to take a message. \<open>InvalidEncoding\<close> is the name the specification
  gives to a wire value outside a decoding map; only the definitions modelled from the
  specification raise it.
\<close>

datatype error =
  Exception | KeyError | ValueError | AssertionError | TypeError | HomeAssistantError
  | InvalidEncoding

text \<open>The builtin \<open>str\<close> on an integer: decimal digits, a minus sign when negative.\<close>

definition digit_char :: "nat \<Rightarrow> char" where
  "digit_char d = ''0123456789'' ! (d mod 10)"

fun str_nat :: "nat \<Rightarrow> string" where
  "str_nat n = (if n < 10 then [digit_char n] else str_nat (n div 10) @ [digit_char (n mod 10)])"

declare str_nat.simps [simp del]

definition py_str :: "int \<Rightarrow> string" where
  "py_str i = (if i < 0 then CHR ''-'' # str_nat (nat (- i)) else str_nat (nat i))"

text \<open>
  The builtin \<open>int\<close> on a string, base ten: white space is stripped at both ends, one
  sign may come first, then decimal digits, where one underscore may stand between two
  digits. Anything else raises \<open>ValueError\<close>. Strings are taken as ASCII text.
\<close>

definition is_space :: "char \<Rightarrow> bool" where
  "is_space c = (c \<in> set
     [CHR 0x09, CHR 0x0A, CHR 0x0B, CHR 0x0C, CHR 0x0D, CHR 0x1C, CHR 0x1D, CHR 0x1E, CHR 0x1F,
      CHR 0x20])"

definition strip :: "string \<Rightarrow> string" where
  "strip s = rev (dropWhile is_space (rev (dropWhile is_space s)))"

definition digit_val :: "char \<Rightarrow> nat option" where
  "digit_val c = map_of
     [(CHR ''0'', 0), (CHR ''1'', 1), (CHR ''2'', 2), (CHR ''3'', 3), (CHR ''4'', 4),
      (CHR ''5'', 5), (CHR ''6'', 6), (CHR ''7'', 7), (CHR ''8'', 8), (CHR ''9'', 9)] c"

fun more_digits :: "nat \<Rightarrow> string \<Rightarrow> nat option" where
  "more_digits acc [] = Some acc"
| "more_digits acc [c] = (case digit_val c of None \<Rightarrow> None | Some d \<Rightarrow> Some (10 * acc + d))"
| "more_digits acc (c # d # cs) =
     (case digit_val c of
        Some v \<Rightarrow> more_digits (10 * acc + v) (d # cs)
      | None \<Rightarrow>
          (if c = CHR ''_'' then
             (case digit_val d of None \<Rightarrow> None | Some v \<Rightarrow> more_digits (10 * acc + v) cs)
           else None))"

definition digits :: "string \<Rightarrow> nat option" where
  "digits s = (case s of [] \<Rightarrow> None
     | c # cs \<Rightarrow> (case digit_val c of None \<Rightarrow> None | Some v \<Rightarrow> more_digits v cs))"

definition py_int :: "string \<Rightarrow> error + int" where
  "py_int s =
     (case strip s of
        [] \<Rightarrow> Inl ValueError
      | c # cs \<Rightarrow>
          (if c = CHR ''-'' then
             (case digits cs of None \<Rightarrow> Inl ValueError | Some n \<Rightarrow> Inr (- int n))
           else if c = CHR ''+'' then
             (case digits cs of None \<Rightarrow> Inl ValueError | Some n \<Rightarrow> Inr (int n))
           else
             (case digits (c # cs) of None \<Rightarrow> Inl ValueError | Some n \<Rightarrow> Inr (int n))))"

section \<open>Flag enumerations\<close>

text \<open>
  A value of a Python \<open>Flag\<close> class is the set of the members it combines: \<open>a | b\<close> is
  the union, \<open>a & b\<close> the intersection, \<open>~a\<close> the complement within the declared members,
  \<open>Cls(0)\<close> the empty set, and \<open>a in b\<close> holds when \<open>a & b == a\<close>.
\<close>

definition flag_in :: "'a set \<Rightarrow> 'a set \<Rightarrow> bool" where
  "flag_in other self = (other \<inter> self = other)"

datatype ZoneFlag = ZONE1 | ZONE2

type_synonym ZoneState = "ZoneFlag set"

definition from_id :: "int \<Rightarrow> error + ZoneState" where
  "from_id i = (if i = 1 then Inr {ZONE1} else if i = 2 then Inr {ZONE2} else Inl Exception)"

definition to_mqtt :: "ZoneState \<Rightarrow> error + string" where
  "to_mqtt self =
     (case map_of [({ZONE1}, 0), ({ZONE2}, 1), ({ZONE1} \<union> {ZONE2}, 2)] self of
        None \<Rightarrow> Inl KeyError
      | Some v \<Rightarrow> Inr (py_str v))"

definition from_mqtt :: "string \<Rightarrow> error + ZoneState" where
  "from_mqtt val =
     (case py_int val of
        Inl e \<Rightarrow> Inl e
      | Inr k \<Rightarrow>
          (case map_of [(0, {ZONE1}), (1, {ZONE2}), (2, {ZONE1} \<union> {ZONE2})] k of
             None \<Rightarrow> Inl KeyError
           | Some z \<Rightarrow> Inr z))"

text \<open>
  The class \<open>OperatingMode\<close> is imported from \<open>definitions.py\<close>, which is not among the
  sources. climate.py uses its member \<open>HEAT\<close>, the flag operators, \<open>to_mqtt\<close> and
  \<open>from_mqtt\<close>. A value of the class is a set of modes of some type \<open>'m\<close>; the member and
  the two codec functions are parameters of every operation that uses them.
\<close>

record 'm definitions =
  OperatingMode_HEAT :: "'m"
  OperatingMode_to_mqtt :: "'m set \<Rightarrow> error + string"
  OperatingMode_from_mqtt :: "string \<Rightarrow> error + 'm set"

text \<open>
  Modelled from the spec: the enumeration and the wire codec of \<open>OperatingMode\<close>
  (\<open>definitions.py\<close>, missing from the sources). The specification gives a set over an
  enumeration of modes that holds at least \<open>Heat\<close>, the empty set meaning that nothing is
  enabled; a wire map that holds at least \<open>"0"\<close> = disabled and \<open>"1"\<close> = enabled; the wire
  values 0, 1 and 2 as the valid ones; and a decoder that fails with \<open>InvalidEncoding\<close>
  outside its map. It does not say which mode set the wire value 2 stands for: \<open>Other\<close>
  stands for the modes beyond \<open>Heat\<close>, and the third entry of the map is the parameter
  \<open>third\<close> of both codec functions.
\<close>

datatype Mode = Heat | Other

definition spec_to_mqtt :: "Mode set \<Rightarrow> Mode set \<Rightarrow> error + string" where
  "spec_to_mqtt third self =
     (case map_of [({}, 0), ({Heat}, 1), (third, 2)] self of
        None \<Rightarrow> Inl InvalidEncoding
      | Some v \<Rightarrow> Inr (py_str v))"

definition spec_from_mqtt :: "Mode set \<Rightarrow> string \<Rightarrow> error + Mode set" where
  "spec_from_mqtt third val =
     (case py_int val of
        Inl e \<Rightarrow> Inl InvalidEncoding
      | Inr k \<Rightarrow>
          (case map_of [(0, {}), (1, {Heat}), (2, third)] k of
             None \<Rightarrow> Inl InvalidEncoding
           | Some m \<Rightarrow> Inr m))"

text \<open>The module with this codec, the wire value 2 standing for \<open>Other\<close> alone.\<close>

definition spec_definitions :: "Mode definitions" where
  "spec_definitions =
     \<lparr>OperatingMode_HEAT = Heat,
      OperatingMode_to_mqtt = spec_to_mqtt {Other},
      OperatingMode_from_mqtt = spec_from_mqtt {Other}\<rparr>"

section \<open>The climate entity\<close>

datatype ZoneClimateMode = COMPENSATION | DIRECT

text \<open>The members of Home Assistant's \<open>HVACMode\<close>.\<close>

datatype HVACMode = OFF | HEAT | COOL | HEAT_COOL | AUTO | DRY | FAN_ONLY

text \<open>
  The fields of \<open>HeishaMonZoneClimate\<close> that its methods read or assign. Two fields
  record the effects on \<open>self.hass\<close>: \<open>published\<close> lists the (topic, payload) pairs the
  MQTT client has taken, oldest first, and \<open>ha_state_writes\<close> counts the calls of
  \<open>async_write_ha_state\<close>, each of which shows the entity's attributes to the host.
  Temperatures are Python floats, kept as values of a type \<open>'f\<close>.
\<close>

record ('m, 'f) HeishaMonZoneClimate =
  discovery_prefix :: string
  zone_id :: int
  attr_hvac_mode :: HVACMode
  zone_state :: ZoneState
  operating_mode :: "'m set"
  mode :: ZoneClimateMode
  attr_min_temp :: int
  attr_max_temp :: int
  attr_target_temperature_step :: int
  attr_current_temperature :: "'f option"
  attr_target_temperature :: "'f option"
  published :: "(string \<times> string) list"
  ha_state_writes :: nat

record message =
  topic :: string
  payload :: string

text \<open>
  \<open>async_publish\<close> hands a message to the MQTT client, which either takes it or raises.
  The client is a parameter: \<open>mqtt topic payload\<close> is \<open>None\<close> when the message is taken
  and \<open>Some e\<close> when the call raises \<open>e\<close>. The remaining arguments of the call (QoS 0,
  no retain, UTF-8) are constants.
\<close>

definition async_publish ::
  "(string \<Rightarrow> string \<Rightarrow> error option) \<Rightarrow> ('m, 'f) HeishaMonZoneClimate \<Rightarrow> string \<Rightarrow> string
   \<Rightarrow> error option \<times> ('m, 'f) HeishaMonZoneClimate" where
  "async_publish mqtt self tpc pl =
     (case mqtt tpc pl of
        Some e \<Rightarrow> (Some e, self)
      | None \<Rightarrow> (None, self\<lparr>published := published self @ [(tpc, pl)]\<rparr>))"

definition async_write_ha_state ::
  "('m, 'f) HeishaMonZoneClimate \<Rightarrow> ('m, 'f) HeishaMonZoneClimate" where
  "async_write_ha_state self = self\<lparr>ha_state_writes := Suc (ha_state_writes self)\<rparr>"

definition change_mode ::
  "('m, 'f) HeishaMonZoneClimate \<Rightarrow> ZoneClimateMode \<Rightarrow> bool \<Rightarrow> ('m, 'f) HeishaMonZoneClimate" where
  "change_mode self m initialization =
     (let self1 = self\<lparr>mode := m\<rparr>;
          self2 =
            (if m = COMPENSATION then
               self1\<lparr>attr_min_temp := - 5, attr_max_temp := 5, attr_target_temperature_step := 1\<rparr>
             else
               self1\<lparr>attr_min_temp := 15, attr_max_temp := 45, attr_target_temperature_step := 1\<rparr>)
      in if \<not> initialization then async_write_ha_state self2 else self2)"

text \<open>
  \<open>__init__\<close>: the entity starts OFF, with both flag fields empty and mode \<open>DIRECT\<close>, and
  calls \<open>change_mode\<close> with \<open>initialization=True\<close>, which sets the temperature bounds.
\<close>

definition init :: "string \<Rightarrow> int \<Rightarrow> ('m, 'f) HeishaMonZoneClimate" where
  "init prefix zid =
     change_mode
       \<lparr>discovery_prefix = prefix, zone_id = zid, attr_hvac_mode = OFF, zone_state = {},
        operating_mode = {}, mode = DIRECT, attr_min_temp = 0, attr_max_temp = 0,
        attr_target_temperature_step = 0, attr_current_temperature = None,
        attr_target_temperature = None, published = [], ha_state_writes = 0\<rparr>
       DIRECT True"

text \<open>
  \<open>async_set_temperature\<close>: \<open>kwargs.get("temperature")\<close> is \<open>None\<close> when the key is absent.
  Both branches on the mode only log, and the enumeration has no third member.
\<close>

definition async_set_temperature ::
  "(string \<Rightarrow> string \<Rightarrow> error option) \<Rightarrow> ('m, 'f) HeishaMonZoneClimate \<Rightarrow> int option
   \<Rightarrow> error option \<times> ('m, 'f) HeishaMonZoneClimate" where
  "async_set_temperature mqtt self temperature =
     (let pl = (case temperature of None \<Rightarrow> ''None'' | Some t \<Rightarrow> py_str t)
      in async_publish mqtt self
           (discovery_prefix self @ ''commands/SetZ'' @ py_str (zone_id self)
              @ ''HeatRequestTemperature'')
           pl)"

definition mode_received ::
  "('m, 'f) HeishaMonZoneClimate \<Rightarrow> message
   \<Rightarrow> error option \<times> ('m, 'f) HeishaMonZoneClimate" where
  "mode_received self msg =
     (case (if payload msg = ''0'' then Inr COMPENSATION
            else if payload msg = ''1'' then Inr DIRECT
            else Inl AssertionError) of
        Inl e \<Rightarrow> (Some e, self)
      | Inr m \<Rightarrow> (None, if m \<noteq> mode self then change_mode self m False else self))"

text \<open>The builtin \<open>float\<close> is a parameter of the two temperature handlers.\<close>

definition current_temperature_message_received ::
  "(string \<Rightarrow> error + 'f) \<Rightarrow> ('m, 'f) HeishaMonZoneClimate \<Rightarrow> message
   \<Rightarrow> error option \<times> ('m, 'f) HeishaMonZoneClimate" where
  "current_temperature_message_received py_float self msg =
     (case py_float (payload msg) of
        Inl e \<Rightarrow> (Some e, self)
      | Inr x \<Rightarrow> (None, async_write_ha_state (self\<lparr>attr_current_temperature := Some x\<rparr>)))"

definition target_temperature_message_received ::
  "(string \<Rightarrow> error + 'f) \<Rightarrow> ('m, 'f) HeishaMonZoneClimate \<Rightarrow> message
   \<Rightarrow> error option \<times> ('m, 'f) HeishaMonZoneClimate" where
  "target_temperature_message_received py_float self msg =
     (case py_float (payload msg) of
        Inl e \<Rightarrow> (Some e, self)
      | Inr x \<Rightarrow> (None, async_write_ha_state (self\<lparr>attr_target_temperature := Some x\<rparr>)))"

definition guess_hvac_mode ::
  "'m definitions \<Rightarrow> ('m, 'f) HeishaMonZoneClimate \<Rightarrow> error + HVACMode" where
  "guess_hvac_mode D self =
     (let global_heating = flag_in {OperatingMode_HEAT D} (operating_mode self)
      in case from_id (zone_id self) of
           Inl e \<Rightarrow> Inl e
         | Inr z \<Rightarrow>
             (let zone_heating = flag_in z (zone_state self)
              in if global_heating \<and> zone_heating then Inr HEAT else Inr OFF))"

definition heating_conf_message_received ::
  "'m definitions \<Rightarrow> ('m, 'f) HeishaMonZoneClimate \<Rightarrow> message
   \<Rightarrow> error option \<times> ('m, 'f) HeishaMonZoneClimate" where
  "heating_conf_message_received D self msg =
     (case (if topic msg = discovery_prefix self @ ''main/Zones_State'' then
              (case from_mqtt (payload msg) of
                 Inl e \<Rightarrow> Inl e
               | Inr z \<Rightarrow> Inr (self\<lparr>zone_state := z\<rparr>))
            else if topic msg = discovery_prefix self @ ''main/Operating_Mode_State'' then
              (case OperatingMode_from_mqtt D (payload msg) of
                 Inl e \<Rightarrow> Inl e
               | Inr om \<Rightarrow> Inr (self\<lparr>operating_mode := om\<rparr>))
            else Inr self) of
        Inl e \<Rightarrow> (Some e, self)
      | Inr self1 \<Rightarrow>
          (case guess_hvac_mode D self1 of
             Inl e \<Rightarrow> (Some e, self1)
           | Inr h \<Rightarrow> (None, async_write_ha_state (self1\<lparr>attr_hvac_mode := h\<rparr>))))"

text \<open>
  \<open>async_set_hvac_mode\<close>, in the order of its statements. \<open>new_flags\<close> is the
  \<open>if\<close>/\<open>elif\<close>/\<open>else\<close> that computes \<open>new_zone_state\<close> and \<open>new_operating_mode\<close>;
  \<open>publish_operating_mode\<close> and \<open>publish_zones\<close> are the two guarded calls of
  \<open>async_publish\<close>, each of which evaluates \<open>to_mqtt()\<close> before the call; the method ends
  with the assignment of the requested mode and the state write. An exception ends the
  call with the entity as it is at that point.
\<close>

definition new_flags ::
  "'m definitions \<Rightarrow> ('m, 'f) HeishaMonZoneClimate \<Rightarrow> HVACMode
   \<Rightarrow> error + ZoneState \<times> 'm set" where
  "new_flags D self hvac_mode =
     (if hvac_mode = HEAT then
        (case from_id (zone_id self) of
           Inl e \<Rightarrow> Inl e
         | Inr z \<Rightarrow>
             Inr (zone_state self \<union> z, operating_mode self \<union> {OperatingMode_HEAT D}))
      else if hvac_mode = OFF then
        (case from_id (zone_id self) of
           Inl e \<Rightarrow> Inl e
         | Inr z \<Rightarrow>
             (let new_zone_state = zone_state self \<inter> - z;
                  new_operating_mode = operating_mode self
              in Inr (new_zone_state,
                      if new_zone_state = {}
                      then operating_mode self \<inter> - {OperatingMode_HEAT D}
                      else new_operating_mode)))
      else Inl TypeError)"

definition publish_operating_mode ::
  "'m definitions \<Rightarrow> (string \<Rightarrow> string \<Rightarrow> error option) \<Rightarrow> ('m, 'f) HeishaMonZoneClimate
   \<Rightarrow> 'm set \<Rightarrow> error option \<times> ('m, 'f) HeishaMonZoneClimate" where
  "publish_operating_mode D mqtt self new_operating_mode =
     (if new_operating_mode \<noteq> operating_mode self then
        (case OperatingMode_to_mqtt D new_operating_mode of
           Inl e \<Rightarrow> (Some e, self)
         | Inr p \<Rightarrow>
             async_publish mqtt self (discovery_prefix self @ ''commands/SetOperationMode'') p)
      else (None, self))"

definition publish_zones ::
  "(string \<Rightarrow> string \<Rightarrow> error option) \<Rightarrow> ('m, 'f) HeishaMonZoneClimate \<Rightarrow> ZoneState
   \<Rightarrow> error option \<times> ('m, 'f) HeishaMonZoneClimate" where
  "publish_zones mqtt self new_zone_state =
     (if new_zone_state \<notin> set [zone_state self, {}] then
        (case to_mqtt new_zone_state of
           Inl e \<Rightarrow> (Some e, self)
         | Inr p \<Rightarrow> async_publish mqtt self (discovery_prefix self @ ''commands/SetZones'') p)
      else (None, self))"

definition async_set_hvac_mode ::
  "'m definitions \<Rightarrow> (string \<Rightarrow> string \<Rightarrow> error option) \<Rightarrow> ('m, 'f) HeishaMonZoneClimate
   \<Rightarrow> HVACMode \<Rightarrow> error option \<times> ('m, 'f) HeishaMonZoneClimate" where
  "async_set_hvac_mode D mqtt self hvac_mode =
     (case new_flags D self hvac_mode of
        Inl e \<Rightarrow> (Some e, self)
      | Inr (new_zone_state, new_operating_mode) \<Rightarrow>
          (case publish_operating_mode D mqtt self new_operating_mode of
             (Some e, self1) \<Rightarrow> (Some e, self1)
           | (None, self1) \<Rightarrow>
               (case publish_zones mqtt self1 new_zone_state of
                  (Some e, self2) \<Rightarrow> (Some e, self2)
                | (None, self2) \<Rightarrow>
                    (None, async_write_ha_state (self2\<lparr>attr_hvac_mode := hvac_mode\<rparr>)))))"

section \<open>Example inputs\<close>

text \<open>
  The entity of zone 1 as \<open>__init__\<close> leaves it, under the integration's default topic
  prefix, with the codec modelled from the specification; a client that takes every
  message, and one that raises on every message.
\<close>

definition zone1 :: "(Mode, int) HeishaMonZoneClimate" where
  "zone1 = init ''panasonic_heat_pump/'' 1"

definition accepting :: "string \<Rightarrow> string \<Rightarrow> error option" where
  "accepting tpc pl = None"

definition refusing :: "string \<Rightarrow> string \<Rightarrow> error option" where
  "refusing tpc pl = Some HomeAssistantError"

section \<open>Basic facts\<close>

lemma ZoneState_cases:
  "(s::ZoneState) = {} \<or> s = {ZONE1} \<or> s = {ZONE2} \<or> s = {ZONE1, ZONE2}"
proof -
  have "s \<subseteq> {ZONE1, ZONE2}"
  proof
    fix x assume "x \<in> s" show "x \<in> {ZONE1, ZONE2}" by (cases x) simp_all
  qed
  then show ?thesis by auto
qed

lemma UNIV_ZoneFlag: "(UNIV :: ZoneFlag set) = {ZONE1, ZONE2}"
  using ZoneFlag.exhaust by auto

lemma Compl_ZONE1: "- {ZONE1} = {ZONE2}"
  using UNIV_ZoneFlag by auto

lemma Compl_ZONE2: "- {ZONE2} = {ZONE1}"
  using UNIV_ZoneFlag by auto

lemma py_str_digits: "py_str 0 = ''0''" "py_str 1 = ''1''" "py_str 2 = ''2''"
  by (simp_all add: py_str_def str_nat.simps digit_char_def)

lemma to_mqtt_values:
  "to_mqtt {} = Inl KeyError" "to_mqtt {ZONE1} = Inr ''0''" "to_mqtt {ZONE2} = Inr ''1''"
  "to_mqtt {ZONE1, ZONE2} = Inr ''2''"
  by (simp_all add: to_mqtt_def py_str_digits doubleton_eq_iff)

lemma to_mqtt_nonempty: "s \<noteq> {} \<Longrightarrow> \<exists>p. to_mqtt s = Inr p"
  using ZoneState_cases [of s] to_mqtt_values by auto

lemma from_id_values: "from_id 1 = Inr {ZONE1}" "from_id 2 = Inr {ZONE2}"
  by (simp_all add: from_id_def)

lemma from_id_Inr:
  "from_id i = Inr z \<Longrightarrow> (i = 1 \<and> z = {ZONE1}) \<or> (i = 2 \<and> z = {ZONE2})"
  by (auto simp: from_id_def split: if_splits)

lemma spec_to_mqtt_values:
  "spec_to_mqtt third {} = Inr ''0''" "spec_to_mqtt third {Heat} = Inr ''1''"
  by (simp_all add: spec_to_mqtt_def py_str_digits)

lemma spec_to_mqtt_third:
  "third \<noteq> {} \<Longrightarrow> third \<noteq> {Heat} \<Longrightarrow> spec_to_mqtt third third = Inr ''2''"
  by (simp add: spec_to_mqtt_def py_str_digits)

lemma spec_definitions_fields:
  "OperatingMode_HEAT spec_definitions = Heat"
  "OperatingMode_to_mqtt spec_definitions = spec_to_mqtt {Other}"
  "OperatingMode_from_mqtt spec_definitions = spec_from_mqtt {Other}"
  by (simp_all add: spec_definitions_def)

lemma zone1_fields:
  "discovery_prefix zone1 = ''panasonic_heat_pump/''" "zone_id zone1 = 1"
  "attr_hvac_mode zone1 = OFF" "zone_state zone1 = {}" "operating_mode zone1 = {}"
  "mode zone1 = DIRECT" "attr_min_temp zone1 = 15" "attr_max_temp zone1 = 45"
  "attr_target_temperature_step zone1 = 1" "published zone1 = []" "ha_state_writes zone1 = 0"
  by (simp_all add: zone1_def init_def change_mode_def)

lemma accepting_None: "accepting tpc pl = None"
  by (simp add: accepting_def)

lemmas effects = async_publish_def async_write_ha_state_def

lemmas py_int_defs = py_int_def strip_def is_space_def digits_def digit_val_def

lemma py_int_values:
  "py_int ''0'' = Inr 0" "py_int ''1'' = Inr 1" "py_int ''2'' = Inr 2" "py_int ''3'' = Inr 3"
  by (simp_all add: py_int_defs)


lemma from_mqtt_values:
  "from_mqtt ''0'' = Inr {ZONE1}" "from_mqtt ''1'' = Inr {ZONE2}"
  "from_mqtt ''2'' = Inr {ZONE1, ZONE2}" "from_mqtt ''3'' = Inl KeyError"
  by (auto simp: from_mqtt_def py_int_values)

lemma spec_from_mqtt_values:
  "spec_from_mqtt third ''0'' = Inr {}" "spec_from_mqtt third ''1'' = Inr {Heat}"
  "spec_from_mqtt third ''2'' = Inr third"
  by (simp_all add: spec_from_mqtt_def py_int_values)

lemma flag_in_single: "flag_in {x} A = (x \<in> A)"
  unfolding flag_in_def by blast

lemma from_id_zone:
  "zone_id self = 1 \<or> zone_id self = 2 \<Longrightarrow>
     from_id (zone_id self) = Inr {if zone_id self = 1 then ZONE1 else ZONE2}"
  by (auto simp: from_id_def)

lemma py_str_46: "py_str 46 = ''46''" "py_str 45 = ''45''" "py_str 6 = ''6''" "py_str 5 = ''5''"
  by (simp_all add: py_str_def str_nat.simps digit_char_def)

section \<open>The steps of \<open>async_set_hvac_mode\<close>\<close>

lemma publish_shape:
  "async_publish mqtt s tpc pl = (r, s') \<Longrightarrow>
     (r = None \<and> mqtt tpc pl = None \<and> s' = s\<lparr>published := published s @ [(tpc, pl)]\<rparr>) \<or>
     (r \<noteq> None \<and> r = mqtt tpc pl \<and> s' = s)"
  by (auto simp: async_publish_def split: option.splits)

lemma publish_operating_mode_shape:
  assumes "publish_operating_mode D mqtt s nom = (r, s')"
  shows "\<exists>cmds. s' = s\<lparr>published := published s @ cmds\<rparr> \<and>
           (\<forall>c \<in> set cmds. mqtt (fst c) (snd c) = None) \<and> (r \<noteq> None \<longrightarrow> cmds = [])"
proof (cases "nom \<noteq> operating_mode s")
  case False
  then have "r = None" "s' = s" using assms by (simp_all add: publish_operating_mode_def)
  then show ?thesis by (intro exI [of _ "[]"]) simp
next
  case True
  show ?thesis
  proof (cases "OperatingMode_to_mqtt D nom")
    case (Inl e)
    then have "s' = s" using assms True by (simp add: publish_operating_mode_def)
    then show ?thesis by (intro exI [of _ "[]"]) simp
  next
    case (Inr p)
    then have "async_publish mqtt s (discovery_prefix s @ ''commands/SetOperationMode'') p = (r, s')"
      using assms True by (simp add: publish_operating_mode_def)
    from publish_shape [OF this] show ?thesis
    proof
      assume a: "r = None \<and> mqtt (discovery_prefix s @ ''commands/SetOperationMode'') p = None \<and>
        s' = s\<lparr>published := published s @ [(discovery_prefix s @ ''commands/SetOperationMode'', p)]\<rparr>"
      then show ?thesis
        by (intro exI [of _ "[(discovery_prefix s @ ''commands/SetOperationMode'', p)]"]) simp
    next
      assume "r \<noteq> None \<and> r = mqtt (discovery_prefix s @ ''commands/SetOperationMode'') p \<and> s' = s"
      then show ?thesis by (intro exI [of _ "[]"]) simp
    qed
  qed
qed

lemma publish_zones_shape:
  assumes "publish_zones mqtt s nz = (r, s')"
  shows "\<exists>cmds. s' = s\<lparr>published := published s @ cmds\<rparr> \<and>
           (\<forall>c \<in> set cmds. mqtt (fst c) (snd c) = None) \<and> (r \<noteq> None \<longrightarrow> cmds = [])"
proof (cases "nz \<notin> set [zone_state s, {}]")
  case False
  then have "r = None" "s' = s" using assms by (simp_all add: publish_zones_def)
  then show ?thesis by (intro exI [of _ "[]"]) simp
next
  case True
  show ?thesis
  proof (cases "to_mqtt nz")
    case (Inl e)
    then have "s' = s" using assms True by (simp add: publish_zones_def)
    then show ?thesis by (intro exI [of _ "[]"]) simp
  next
    case (Inr p)
    then have "async_publish mqtt s (discovery_prefix s @ ''commands/SetZones'') p = (r, s')"
      using assms True by (simp add: publish_zones_def)
    from publish_shape [OF this] show ?thesis
    proof
      assume a: "r = None \<and> mqtt (discovery_prefix s @ ''commands/SetZones'') p = None \<and>
        s' = s\<lparr>published := published s @ [(discovery_prefix s @ ''commands/SetZones'', p)]\<rparr>"
      then show ?thesis
        by (intro exI [of _ "[(discovery_prefix s @ ''commands/SetZones'', p)]"]) simp
    next
      assume "r \<noteq> None \<and> r = mqtt (discovery_prefix s @ ''commands/SetZones'') p \<and> s' = s"
      then show ?thesis by (intro exI [of _ "[]"]) simp
    qed
  qed
qed

lemma set_hvac_mode_shape:
  fixes self :: "('m, 'f) HeishaMonZoneClimate"
  assumes run: "async_set_hvac_mode D mqtt self h = (r, s')"
  shows "\<exists>cmds. (\<forall>c \<in> set cmds. mqtt (fst c) (snd c) = None) \<and>
     s' = (if r = None
           then self\<lparr>attr_hvac_mode := h, published := published self @ cmds,
                      ha_state_writes := Suc (ha_state_writes self)\<rparr>
           else self\<lparr>published := published self @ cmds\<rparr>)"
proof (cases "new_flags D self h")
  case (Inl e)
  then have "r = Some e" "s' = self" using run by (simp_all add: async_set_hvac_mode_def)
  then show ?thesis by (intro exI [of _ "[]"]) simp
next
  case (Inr fl)
  obtain nz nom where fl: "fl = (nz, nom)" by (cases fl)
  obtain r1 s1 where p1: "publish_operating_mode D mqtt self nom = (r1, s1)"
    by (cases "publish_operating_mode D mqtt self nom")
  from publish_operating_mode_shape [OF p1] obtain c1 where
    c1: "s1 = self\<lparr>published := published self @ c1\<rparr>"
        "\<forall>c \<in> set c1. mqtt (fst c) (snd c) = None" by blast
  show ?thesis
  proof (cases r1)
    case (Some e)
    then have "r = Some e" "s' = s1"
      using run Inr fl p1 by (simp_all add: async_set_hvac_mode_def)
    then show ?thesis using c1 by (intro exI [of _ c1]) simp
  next
    case None
    obtain r2 s2 where p2: "publish_zones mqtt s1 nz = (r2, s2)"
      by (cases "publish_zones mqtt s1 nz")
    from publish_zones_shape [OF p2] obtain c2 where
      c2: "s2 = s1\<lparr>published := published s1 @ c2\<rparr>"
          "\<forall>c \<in> set c2. mqtt (fst c) (snd c) = None" by blast
    show ?thesis
    proof (cases r2)
      case (Some e)
      then have "r = Some e" "s' = s2"
        using run Inr fl p1 p2 None by (simp_all add: async_set_hvac_mode_def)
      then show ?thesis using c1 c2 by (intro exI [of _ "c1 @ c2"]) auto
    next
      case None2: None
      then have "r = None" "s' = async_write_ha_state (s2\<lparr>attr_hvac_mode := h\<rparr>)"
        using run Inr fl p1 p2 None by (simp_all add: async_set_hvac_mode_def)
      then show ?thesis using c1 c2
        by (intro exI [of _ "c1 @ c2"]) (auto simp: async_write_ha_state_def)
    qed
  qed
qed

lemma publish_operating_mode_eval:
  "nom = operating_mode s \<Longrightarrow> publish_operating_mode D mqtt s nom = (None, s)"
  "nom \<noteq> operating_mode s \<Longrightarrow> OperatingMode_to_mqtt D nom = Inl e \<Longrightarrow>
     publish_operating_mode D mqtt s nom = (Some e, s)"
  "nom \<noteq> operating_mode s \<Longrightarrow> OperatingMode_to_mqtt D nom = Inr p \<Longrightarrow>
     mqtt (discovery_prefix s @ ''commands/SetOperationMode'') p = Some e \<Longrightarrow>
     publish_operating_mode D mqtt s nom = (Some e, s)"
  "nom \<noteq> operating_mode s \<Longrightarrow> OperatingMode_to_mqtt D nom = Inr p \<Longrightarrow>
     mqtt (discovery_prefix s @ ''commands/SetOperationMode'') p = None \<Longrightarrow>
     publish_operating_mode D mqtt s nom =
       (None, s\<lparr>published := published s @ [(discovery_prefix s @ ''commands/SetOperationMode'', p)]\<rparr>)"
  by (simp_all add: publish_operating_mode_def async_publish_def)

lemma publish_zones_eval:
  "nz = zone_state s \<or> nz = {} \<Longrightarrow> publish_zones mqtt s nz = (None, s)"
  "nz \<noteq> zone_state s \<Longrightarrow> nz \<noteq> {} \<Longrightarrow> to_mqtt nz = Inr p \<Longrightarrow>
     mqtt (discovery_prefix s @ ''commands/SetZones'') p = Some e \<Longrightarrow>
     publish_zones mqtt s nz = (Some e, s)"
  "nz \<noteq> zone_state s \<Longrightarrow> nz \<noteq> {} \<Longrightarrow> to_mqtt nz = Inr p \<Longrightarrow>
     mqtt (discovery_prefix s @ ''commands/SetZones'') p = None \<Longrightarrow>
     publish_zones mqtt s nz =
       (None, s\<lparr>published := published s @ [(discovery_prefix s @ ''commands/SetZones'', p)]\<rparr>)"
  by (auto simp: publish_zones_def async_publish_def)

lemma new_flags_HEAT:
  "from_id (zone_id self) = Inr z \<Longrightarrow>
     new_flags D self HEAT = Inr (zone_state self \<union> z, operating_mode self \<union> {OperatingMode_HEAT D})"
  by (simp add: new_flags_def)

lemma new_flags_OFF:
  "from_id (zone_id self) = Inr z \<Longrightarrow>
     new_flags D self OFF =
       Inr (zone_state self \<inter> - z,
            if zone_state self \<inter> - z = {} then operating_mode self \<inter> - {OperatingMode_HEAT D}
            else operating_mode self)"
  by (simp add: new_flags_def)


lemma set_hvac_mode_quiet:
  fixes self :: "('m, 'f) HeishaMonZoneClimate"
  assumes fl: "new_flags D self h = Inr (nz, nom)"
  shows "(fst (async_set_hvac_mode D mqtt self h) = None \<and>
          published (snd (async_set_hvac_mode D mqtt self h)) = published self)
         = (nom = operating_mode self \<and> (nz = zone_state self \<or> nz = {}))"
proof (cases "nom = operating_mode self")
  case True
  note p1 = publish_operating_mode_eval(1) [OF True, of D mqtt]
  show ?thesis
  proof (cases "nz = zone_state self \<or> nz = {}")
    case q: True
    have "async_set_hvac_mode D mqtt self h =
            (None, async_write_ha_state (self\<lparr>attr_hvac_mode := h\<rparr>))"
      by (simp add: async_set_hvac_mode_def fl p1 publish_zones_eval(1) [OF q])
    then show ?thesis
      using True q by (simp add: async_write_ha_state_def)
  next
    case q: False
    then have ne: "nz \<noteq> zone_state self" "nz \<noteq> {}" by simp_all
    obtain zp where zp: "to_mqtt nz = Inr zp" using to_mqtt_nonempty [OF ne(2)] by blast
    show ?thesis
    proof (cases "mqtt (discovery_prefix self @ ''commands/SetZones'') zp")
      case None
      have "async_set_hvac_mode D mqtt self h =
              (None, async_write_ha_state (self\<lparr>published := published self
                 @ [(discovery_prefix self @ ''commands/SetZones'', zp)],
                 attr_hvac_mode := h\<rparr>))"
        by (simp add: async_set_hvac_mode_def fl p1 publish_zones_eval(3) [where mqtt = mqtt and s = self, OF ne zp None])
      then show ?thesis
        using q by (simp add: async_write_ha_state_def)
    next
      case (Some e)
      have "async_set_hvac_mode D mqtt self h = (Some e, self)"
        by (simp add: async_set_hvac_mode_def fl p1 publish_zones_eval(2) [where mqtt = mqtt and s = self, OF ne zp Some])
      then show ?thesis
        using q by simp
    qed
  qed
next
  case False
  show ?thesis
  proof (cases "OperatingMode_to_mqtt D nom")
    case (Inl e)
    have "async_set_hvac_mode D mqtt self h = (Some e, self)"
      by (simp add: async_set_hvac_mode_def fl publish_operating_mode_eval(2) [OF False Inl])
    then show ?thesis
      using False by simp
  next
    case (Inr p)
    show ?thesis
    proof (cases "mqtt (discovery_prefix self @ ''commands/SetOperationMode'') p")
      case (Some e)
      have "async_set_hvac_mode D mqtt self h = (Some e, self)"
        by (simp add: async_set_hvac_mode_def fl
            publish_operating_mode_eval(3) [where mqtt = mqtt and s = self, OF False Inr Some])
      then show ?thesis
        using False by simp
    next
      case None
      let ?s1 = "self\<lparr>published := published self
                   @ [(discovery_prefix self @ ''commands/SetOperationMode'', p)]\<rparr>"
      note p1 = publish_operating_mode_eval(4) [where mqtt = mqtt and s = self, OF False Inr None]
      obtain r2 s2 where p2: "publish_zones mqtt ?s1 nz = (r2, s2)"
        by (cases "publish_zones mqtt ?s1 nz")
      from publish_zones_shape [OF p2] obtain c2 where
        c2: "s2 = ?s1\<lparr>published := published ?s1 @ c2\<rparr>" by blast
      show ?thesis
      proof (cases r2)
        case r: None
        have "async_set_hvac_mode D mqtt self h =
                (None, async_write_ha_state (s2\<lparr>attr_hvac_mode := h\<rparr>))"
          by (simp add: async_set_hvac_mode_def fl p1 p2 r)
        then show ?thesis
          using False by (simp add: c2 async_write_ha_state_def)
      next
        case r: (Some e)
        have "async_set_hvac_mode D mqtt self h = (Some e, s2)"
          by (simp add: async_set_hvac_mode_def fl p1 p2 r)
        then show ?thesis
          using False by simp
      qed
    qed
  qed
qed

lemma publish_operating_mode_accepting:
  "publish_operating_mode D mqtt s nom = (None, s1) \<Longrightarrow>
     publish_operating_mode D accepting s nom = (None, s1)"
  by (auto simp: publish_operating_mode_def async_publish_def accepting_def
      split: if_splits sum.splits option.splits)

lemma publish_zones_accepting:
  "publish_zones mqtt s nz = (None, s1) \<Longrightarrow> publish_zones accepting s nz = (None, s1)"
  by (auto simp: publish_zones_def async_publish_def accepting_def
      split: if_splits sum.splits option.splits)

lemma set_hvac_mode_accepting:
  fixes self :: "('m, 'f) HeishaMonZoneClimate"
  assumes run: "async_set_hvac_mode D mqtt self h = (None, s')"
  shows "async_set_hvac_mode D accepting self h = (None, s')"
proof (cases "new_flags D self h")
  case (Inl e)
  then show ?thesis using run by (simp add: async_set_hvac_mode_def)
next
  case (Inr fl)
  obtain nz nom where fl: "fl = (nz, nom)" by (cases fl)
  obtain r1 s1 where p1: "publish_operating_mode D mqtt self nom = (r1, s1)"
    by (cases "publish_operating_mode D mqtt self nom")
  have r1: "r1 = None"
    using run Inr fl p1 by (cases r1) (simp_all add: async_set_hvac_mode_def)
  obtain r2 s2 where p2: "publish_zones mqtt s1 nz = (r2, s2)"
    by (cases "publish_zones mqtt s1 nz")
  have r2: "r2 = None"
    using run Inr fl p1 r1 p2 by (cases r2) (simp_all add: async_set_hvac_mode_def)
  have a1: "publish_operating_mode D accepting self nom = (None, s1)"
    using publish_operating_mode_accepting p1 r1 by blast
  have a2: "publish_zones accepting s1 nz = (None, s2)"
    using publish_zones_accepting p2 r2 by blast
  have "s' = async_write_ha_state (s2\<lparr>attr_hvac_mode := h\<rparr>)"
    using run Inr fl p1 r1 p2 r2 by (simp add: async_set_hvac_mode_def)
  then show ?thesis
    by (simp add: async_set_hvac_mode_def Inr fl a1 a2)
qed

lemma set_hvac_mode_flags:
  fixes self :: "('m, 'f) HeishaMonZoneClimate"
  shows "zone_state (snd (async_set_hvac_mode D mqtt self h)) = zone_state self"
    and "operating_mode (snd (async_set_hvac_mode D mqtt self h)) = operating_mode self"
    and "zone_id (snd (async_set_hvac_mode D mqtt self h)) = zone_id self"
proof -
  obtain r s' where run: "async_set_hvac_mode D mqtt self h = (r, s')"
    by (cases "async_set_hvac_mode D mqtt self h")
  from set_hvac_mode_shape [OF run] obtain cmds where
    s': "s' = (if r = None
           then self\<lparr>attr_hvac_mode := h, published := published self @ cmds,
                      ha_state_writes := Suc (ha_state_writes self)\<rparr>
           else self\<lparr>published := published self @ cmds\<rparr>)" by blast
  show "zone_state (snd (async_set_hvac_mode D mqtt self h)) = zone_state self"
    and "operating_mode (snd (async_set_hvac_mode D mqtt self h)) = operating_mode self"
    and "zone_id (snd (async_set_hvac_mode D mqtt self h)) = zone_id self"
    by (simp_all add: run s')
qed

section \<open>Turning a zone on\<close>

text \<open>
  C1. With a zone id of 1 or 2, a client that takes every message and an operating-mode
  encoder that knows the new mode, \<open>async_set_hvac_mode\<close> with \<open>HEAT\<close> computes the new zone
  state as the union of the cached one with the zone, and the new operating mode as the
  union of the cached one with \<open>HEAT\<close>. It publishes the operating-mode command exactly when
  the new mode differs from the cached one, then the zones command exactly when the new
  zone state differs from the cached one and is not empty, in this order, and then sets the
  mode to \<open>HEAT\<close> and writes the state once.
\<close>

theorem request_zone_on:
  fixes self :: "('m, 'f) HeishaMonZoneClimate"
  assumes zid: "from_id (zone_id self) = Inr z"
    and tx: "\<And>tpc pl. mqtt tpc pl = None"
    and enc: "OperatingMode_to_mqtt D (operating_mode self \<union> {OperatingMode_HEAT D}) = Inr p"
  shows "\<exists>zp. to_mqtt (zone_state self \<union> z) = Inr zp \<and>
     async_set_hvac_mode D mqtt self HEAT =
       (None, self\<lparr>attr_hvac_mode := HEAT,
          published := published self
            @ (if operating_mode self \<union> {OperatingMode_HEAT D} \<noteq> operating_mode self
               then [(discovery_prefix self @ ''commands/SetOperationMode'', p)] else [])
            @ (if zone_state self \<union> z \<noteq> zone_state self \<and> zone_state self \<union> z \<noteq> {}
               then [(discovery_prefix self @ ''commands/SetZones'', zp)] else []),
          ha_state_writes := Suc (ha_state_writes self)\<rparr>)"
proof -
  have z: "z = {ZONE1} \<or> z = {ZONE2}"
    using from_id_Inr [OF zid] by blast
  have ne: "zone_state self \<union> z \<noteq> {}"
    using z by auto
  obtain zp where zp: "to_mqtt (zone_state self \<union> z) = Inr zp"
    using to_mqtt_nonempty [OF ne] by blast
  show ?thesis
    using zid tx enc zp ne
    by (auto simp: async_set_hvac_mode_def new_flags_def publish_operating_mode_def
        publish_zones_def effects)
qed

text \<open>
  At the initial state of zone 1 (no zone cached, operating mode empty) the call publishes
  exactly two commands, the operating mode first and the zones second.
\<close>

theorem request_zone_on_witness:
  "async_set_hvac_mode spec_definitions accepting zone1 HEAT =
     (None, zone1\<lparr>attr_hvac_mode := HEAT,
        published := [(''panasonic_heat_pump/commands/SetOperationMode'', ''1''),
                      (''panasonic_heat_pump/commands/SetZones'', ''0'')],
        ha_state_writes := 1\<rparr>)"
proof -
  have a: "from_id (zone_id zone1) = Inr {ZONE1}"
    by (simp add: zone1_fields from_id_values)
  have c: "OperatingMode_to_mqtt spec_definitions
             (operating_mode zone1 \<union> {OperatingMode_HEAT spec_definitions}) = Inr ''1''"
    by (simp add: zone1_fields spec_definitions_fields spec_to_mqtt_values)
  show ?thesis
    using request_zone_on [OF a accepting_None c]
    by (auto simp: zone1_fields spec_definitions_fields to_mqtt_values)
qed

section \<open>Turning a zone off\<close>

text \<open>
  C2. With a zone id of 1 or 2, a client that takes every message and an operating-mode
  encoder that knows the mode without \<open>HEAT\<close>, \<open>async_set_hvac_mode\<close> with \<open>OFF\<close> computes
  the new zone state as the cached one without the zone. When it is empty, the new
  operating mode is the cached one without \<open>HEAT\<close>, the only command that can be published
  is the operating-mode command (published when \<open>HEAT\<close> was cached), and no zones command
  is published for the empty set. When it is not empty, the operating mode is left as it
  is and the only command that can be published is the zones command (published when the
  zone was cached).
\<close>

theorem request_zone_off:
  fixes self :: "('m, 'f) HeishaMonZoneClimate"
  assumes zid: "from_id (zone_id self) = Inr z"
    and tx: "\<And>tpc pl. mqtt tpc pl = None"
    and enc: "OperatingMode_to_mqtt D (operating_mode self \<inter> - {OperatingMode_HEAT D}) = Inr p"
  shows "if zone_state self \<inter> - z = {} then
           async_set_hvac_mode D mqtt self OFF =
             (None, self\<lparr>attr_hvac_mode := OFF,
                published := published self
                  @ (if OperatingMode_HEAT D \<in> operating_mode self
                     then [(discovery_prefix self @ ''commands/SetOperationMode'', p)] else []),
                ha_state_writes := Suc (ha_state_writes self)\<rparr>)
         else
           (\<exists>zp. to_mqtt (zone_state self \<inter> - z) = Inr zp \<and>
              async_set_hvac_mode D mqtt self OFF =
                (None, self\<lparr>attr_hvac_mode := OFF,
                   published := published self
                     @ (if zone_state self \<inter> - z \<noteq> zone_state self
                        then [(discovery_prefix self @ ''commands/SetZones'', zp)] else []),
                   ha_state_writes := Suc (ha_state_writes self)\<rparr>))"
proof (cases "zone_state self \<inter> - z = {}")
  case True
  have fl: "new_flags D self OFF = Inr ({}, operating_mode self \<inter> - {OperatingMode_HEAT D})"
    using new_flags_OFF [OF zid, of D] True by simp
  show ?thesis
  proof (cases "OperatingMode_HEAT D \<in> operating_mode self")
    case h: True
    then have ne: "operating_mode self \<inter> - {OperatingMode_HEAT D} \<noteq> operating_mode self"
      by blast
    show ?thesis
      using True h
      by (simp add: async_set_hvac_mode_def fl publish_operating_mode_eval(4) [OF ne enc tx]
          publish_zones_eval(1) async_write_ha_state_def)
  next
    case h: False
    then have eq: "operating_mode self \<inter> - {OperatingMode_HEAT D} = operating_mode self"
      by blast
    show ?thesis
      using True h
      by (simp add: async_set_hvac_mode_def fl publish_operating_mode_eval(1) [OF eq]
          publish_zones_eval(1) async_write_ha_state_def)
  qed
next
  case False
  have fl: "new_flags D self OFF = Inr (zone_state self \<inter> - z, operating_mode self)"
    using new_flags_OFF [OF zid, of D] False by simp
  obtain zp where zp: "to_mqtt (zone_state self \<inter> - z) = Inr zp"
    using to_mqtt_nonempty [OF False] by blast
  show ?thesis
  proof (cases "zone_state self \<inter> - z = zone_state self")
    case same: True
    show ?thesis
      using False same zp
      by (simp add: async_set_hvac_mode_def fl publish_operating_mode_eval(1)
          publish_zones_eval(1) async_write_ha_state_def)
  next
    case diff: False
    show ?thesis
      using False diff zp
      by (simp add: async_set_hvac_mode_def fl publish_operating_mode_eval(1)
          publish_zones_eval(3) [OF _ _ zp tx] async_write_ha_state_def)
  qed
qed


text \<open>
  From zones 1 and 2 with \<open>Heat\<close>, turning zone 1 off publishes the one zones command
  with payload \<open>1\<close>; from zone 1 alone with \<open>Heat\<close>, it publishes the one operating-mode
  command, with the payload of the empty mode.
\<close>

theorem request_zone_off_witness:
  "async_set_hvac_mode spec_definitions accepting
       (zone1\<lparr>zone_state := {ZONE1, ZONE2}, operating_mode := {Heat}\<rparr>) OFF =
     (None, zone1\<lparr>zone_state := {ZONE1, ZONE2}, operating_mode := {Heat}, attr_hvac_mode := OFF,
        published := [(''panasonic_heat_pump/commands/SetZones'', ''1'')],
        ha_state_writes := 1\<rparr>) \<and>
   async_set_hvac_mode spec_definitions accepting
       (zone1\<lparr>zone_state := {ZONE1}, operating_mode := {Heat}\<rparr>) OFF =
     (None, zone1\<lparr>zone_state := {ZONE1}, operating_mode := {Heat}, attr_hvac_mode := OFF,
        published := [(''panasonic_heat_pump/commands/SetOperationMode'', ''0'')],
        ha_state_writes := 1\<rparr>)"
proof -
  let ?a = "zone1\<lparr>zone_state := {ZONE1, ZONE2}, operating_mode := {Heat}\<rparr>"
  let ?b = "zone1\<lparr>zone_state := {ZONE1}, operating_mode := {Heat}\<rparr>"
  have ia: "from_id (zone_id ?a) = Inr {ZONE1}" and ib: "from_id (zone_id ?b) = Inr {ZONE1}"
    by (simp_all add: zone1_fields from_id_values)
  have ea: "OperatingMode_to_mqtt spec_definitions
              (operating_mode ?a \<inter> - {OperatingMode_HEAT spec_definitions}) = Inr ''0''"
    and eb: "OperatingMode_to_mqtt spec_definitions
              (operating_mode ?b \<inter> - {OperatingMode_HEAT spec_definitions}) = Inr ''0''"
    by (simp_all add: spec_definitions_fields spec_to_mqtt_values)
  have za: "{ZONE1, ZONE2} \<inter> - {ZONE1} = {ZONE2}" and zb: "{ZONE1} \<inter> - {ZONE1} = {}"
    using Compl_ZONE1 by auto
  have "async_set_hvac_mode spec_definitions accepting ?a OFF =
     (None, ?a\<lparr>attr_hvac_mode := OFF,
        published := [(''panasonic_heat_pump/commands/SetZones'', ''1'')],
        ha_state_writes := 1\<rparr>)"
    using request_zone_off [OF ia accepting_None ea]
    by (simp add: za zone1_fields to_mqtt_values)
  moreover have "async_set_hvac_mode spec_definitions accepting ?b OFF =
     (None, ?b\<lparr>attr_hvac_mode := OFF,
        published := [(''panasonic_heat_pump/commands/SetOperationMode'', ''0'')],
        ha_state_writes := 1\<rparr>)"
    using request_zone_off [OF ib accepting_None eb]
    by (simp add: zb zone1_fields spec_definitions_fields)
  ultimately show ?thesis by simp
qed

section \<open>Requests that publish nothing\<close>

text \<open>
  C3, as amended. For a zone id of 1 or 2, whatever the client and the operating-mode
  encoder do: \<open>async_set_hvac_mode\<close> with \<open>HEAT\<close> returns normally without publishing
  exactly when the zone is in the cached zone state and \<open>HEAT\<close> is in the cached operating
  mode; and for a zone that is not in the cached zone state, \<open>async_set_hvac_mode\<close> with
  \<open>OFF\<close> returns normally without publishing exactly when the cached zone state is not
  empty or \<open>HEAT\<close> is not in the cached operating mode.
\<close>

theorem no_command_requests:
  fixes self :: "('m, 'f) HeishaMonZoneClimate"
  assumes zid: "from_id (zone_id self) = Inr z"
  shows "((fst (async_set_hvac_mode D mqtt self HEAT) = None \<and>
           published (snd (async_set_hvac_mode D mqtt self HEAT)) = published self)
          = (flag_in z (zone_state self) \<and> OperatingMode_HEAT D \<in> operating_mode self))
       \<and> (\<not> flag_in z (zone_state self) \<longrightarrow>
           ((fst (async_set_hvac_mode D mqtt self OFF) = None \<and>
             published (snd (async_set_hvac_mode D mqtt self OFF)) = published self)
            = (zone_state self \<noteq> {} \<or> OperatingMode_HEAT D \<notin> operating_mode self)))"
proof -
  have z: "z = {ZONE1} \<or> z = {ZONE2}"
    using from_id_Inr [OF zid] by blast
  have on: "(operating_mode self \<union> {OperatingMode_HEAT D} = operating_mode self \<and>
             (zone_state self \<union> z = zone_state self \<or> zone_state self \<union> z = {}))
            = (flag_in z (zone_state self) \<and> OperatingMode_HEAT D \<in> operating_mode self)"
    using z unfolding flag_in_def by blast
  have off: "\<not> flag_in z (zone_state self) \<Longrightarrow>
     ((if zone_state self \<inter> - z = {} then operating_mode self \<inter> - {OperatingMode_HEAT D}
       else operating_mode self) = operating_mode self \<and>
      (zone_state self \<inter> - z = zone_state self \<or> zone_state self \<inter> - z = {}))
     = (zone_state self \<noteq> {} \<or> OperatingMode_HEAT D \<notin> operating_mode self)"
  proof -
    assume "\<not> flag_in z (zone_state self)"
    then have d: "zone_state self \<inter> - z = zone_state self"
      using z unfolding flag_in_def by blast
    show ?thesis
      unfolding d by (cases "zone_state self = {}") auto
  qed
  show ?thesis
    using set_hvac_mode_quiet [OF new_flags_HEAT [OF zid], of D mqtt]
      set_hvac_mode_quiet [OF new_flags_OFF [OF zid], of D mqtt] on off
    by simp
qed

text \<open>
  Membership of the zone alone does not make the request silent: with zone 1 cached and
  no \<open>Heat\<close>, turning zone 1 on publishes the operating-mode command; with no zone cached
  and \<open>Heat\<close> cached, turning zone 1 off publishes the operating-mode command.
\<close>

theorem no_command_requests_counterexample:
  "flag_in {ZONE1} (zone_state (zone1\<lparr>zone_state := {ZONE1}\<rparr>)) \<and>
   async_set_hvac_mode spec_definitions accepting (zone1\<lparr>zone_state := {ZONE1}\<rparr>) HEAT =
     (None, zone1\<lparr>zone_state := {ZONE1}, attr_hvac_mode := HEAT,
        published := [(''panasonic_heat_pump/commands/SetOperationMode'', ''1'')],
        ha_state_writes := 1\<rparr>) \<and>
   \<not> flag_in {ZONE1} (zone_state (zone1\<lparr>operating_mode := {Heat}\<rparr>)) \<and>
   async_set_hvac_mode spec_definitions accepting (zone1\<lparr>operating_mode := {Heat}\<rparr>) OFF =
     (None, zone1\<lparr>operating_mode := {Heat}, attr_hvac_mode := OFF,
        published := [(''panasonic_heat_pump/commands/SetOperationMode'', ''0'')],
        ha_state_writes := 1\<rparr>)"
  by (simp add: flag_in_def async_set_hvac_mode_def new_flags_def publish_operating_mode_def
      publish_zones_def effects zone1_fields spec_definitions_fields from_id_values
      spec_to_mqtt_values accepting_def Compl_ZONE1)

theorem no_command_requests_witness:
  "fst (async_set_hvac_mode spec_definitions accepting
          (zone1\<lparr>zone_state := {ZONE1}, operating_mode := {Heat}\<rparr>) HEAT) = None \<and>
   published (snd (async_set_hvac_mode spec_definitions accepting
          (zone1\<lparr>zone_state := {ZONE1}, operating_mode := {Heat}\<rparr>) HEAT)) = [] \<and>
   fst (async_set_hvac_mode spec_definitions accepting
          (zone1\<lparr>zone_state := {ZONE2}, operating_mode := {Heat}\<rparr>) OFF) = None \<and>
   published (snd (async_set_hvac_mode spec_definitions accepting
          (zone1\<lparr>zone_state := {ZONE2}, operating_mode := {Heat}\<rparr>) OFF)) = []"
proof -
  let ?a = "zone1\<lparr>zone_state := {ZONE1}, operating_mode := {Heat}\<rparr>"
  let ?b = "zone1\<lparr>zone_state := {ZONE2}, operating_mode := {Heat}\<rparr>"
  have ia: "from_id (zone_id ?a) = Inr {ZONE1}" and ib: "from_id (zone_id ?b) = Inr {ZONE1}"
    by (simp_all add: zone1_fields from_id_values)
  show ?thesis
    using no_command_requests [OF ia, of spec_definitions accepting]
      no_command_requests [OF ib, of spec_definitions accepting]
    by (simp add: flag_in_def zone1_fields spec_definitions_fields)
qed

section \<open>A client that refuses a command\<close>

text \<open>
  C7. When \<open>async_set_hvac_mode\<close> raises, every field of the entity but the list of
  published messages is as before the call: the requested mode is not assigned and no
  state is written. When it returns normally, the client has taken every command the
  call published. And when the client refuses one of the commands that the call publishes
  with a client that takes everything, the call raises.
\<close>

theorem publish_failure:
  fixes self :: "('m, 'f) HeishaMonZoneClimate"
  shows "(async_set_hvac_mode D mqtt self h = (Some e, s') \<longrightarrow>
            s' = self\<lparr>published := published s'\<rparr>)
       \<and> (async_set_hvac_mode D mqtt self h = (None, s') \<longrightarrow>
            (\<forall>c \<in> set (drop (length (published self)) (published s')).
               mqtt (fst c) (snd c) = None))
       \<and> (async_set_hvac_mode D accepting self h = (None, s_ok) \<and>
          c \<in> set (drop (length (published self)) (published s_ok)) \<and>
          mqtt (fst c) (snd c) \<noteq> None \<longrightarrow>
            fst (async_set_hvac_mode D mqtt self h) \<noteq> None)"
proof (intro conjI impI)
  assume run: "async_set_hvac_mode D mqtt self h = (Some e, s')"
  from set_hvac_mode_shape [OF run] obtain cmds where
    "s' = self\<lparr>published := published self @ cmds\<rparr>" by auto
  then show "s' = self\<lparr>published := published s'\<rparr>" by simp
next
  assume run: "async_set_hvac_mode D mqtt self h = (None, s')"
  from set_hvac_mode_shape [OF run] obtain cmds where
    c: "\<forall>c \<in> set cmds. mqtt (fst c) (snd c) = None"
       "published s' = published self @ cmds" by auto
  show "\<forall>c \<in> set (drop (length (published self)) (published s')). mqtt (fst c) (snd c) = None"
    using c by simp
next
  assume a: "async_set_hvac_mode D accepting self h = (None, s_ok) \<and>
          c \<in> set (drop (length (published self)) (published s_ok)) \<and>
          mqtt (fst c) (snd c) \<noteq> None"
  show "fst (async_set_hvac_mode D mqtt self h) \<noteq> None"
  proof
    assume n: "fst (async_set_hvac_mode D mqtt self h) = None"
    obtain s' where run: "async_set_hvac_mode D mqtt self h = (None, s')"
      using n by (cases "async_set_hvac_mode D mqtt self h") simp
    have "s' = s_ok"
      using set_hvac_mode_accepting [OF run] a by simp
    moreover from set_hvac_mode_shape [OF run] obtain cmds where
      "\<forall>c \<in> set cmds. mqtt (fst c) (snd c) = None"
      "published s' = published self @ cmds" by auto
    ultimately show False using a by auto
  qed
qed

text \<open>
  With a client that takes the operating-mode command and refuses the zones command,
  turning zone 1 on at its initial state raises the client's error, the operating-mode
  command is the only one published and the mode stays \<open>OFF\<close>.
\<close>

theorem publish_failure_witness:
  "async_set_hvac_mode spec_definitions
       (\<lambda>tpc pl. if tpc = ''panasonic_heat_pump/commands/SetZones''
                  then Some HomeAssistantError else None) zone1 HEAT =
     (Some HomeAssistantError,
      zone1\<lparr>published := [(''panasonic_heat_pump/commands/SetOperationMode'', ''1'')]\<rparr>) \<and>
   attr_hvac_mode (zone1\<lparr>published :=
       [(''panasonic_heat_pump/commands/SetOperationMode'', ''1'')]\<rparr>) = OFF \<and>
   fst (async_set_hvac_mode spec_definitions refusing zone1 HEAT) \<noteq> None"
proof -
  let ?mqtt = "\<lambda>tpc pl. if tpc = ''panasonic_heat_pump/commands/SetZones''
                  then Some HomeAssistantError else None"
  let ?s = "zone1\<lparr>published := [(''panasonic_heat_pump/commands/SetOperationMode'', ''1'')]\<rparr>"
  have run: "async_set_hvac_mode spec_definitions ?mqtt zone1 HEAT = (Some HomeAssistantError, ?s)"
    by (simp add: async_set_hvac_mode_def new_flags_def publish_operating_mode_def
      publish_zones_def effects zone1_fields spec_definitions_fields from_id_values
      spec_to_mqtt_values to_mqtt_values)
  have ok: "async_set_hvac_mode spec_definitions accepting zone1 HEAT =
     (None, zone1\<lparr>attr_hvac_mode := HEAT,
        published := [(''panasonic_heat_pump/commands/SetOperationMode'', ''1''),
                      (''panasonic_heat_pump/commands/SetZones'', ''0'')],
        ha_state_writes := 1\<rparr>)"
    by (simp add: async_set_hvac_mode_def new_flags_def publish_operating_mode_def
      publish_zones_def effects zone1_fields spec_definitions_fields from_id_values
      spec_to_mqtt_values to_mqtt_values accepting_def)
  have "?s = zone1\<lparr>published := published ?s\<rparr>"
    using publish_failure [of spec_definitions ?mqtt zone1 HEAT HomeAssistantError ?s] run
    by blast
  moreover have "fst (async_set_hvac_mode spec_definitions refusing zone1 HEAT) \<noteq> None"
    using publish_failure [where D = spec_definitions and mqtt = refusing and self = zone1
        and h = HEAT and c = "(''panasonic_heat_pump/commands/SetZones'', ''0'')"
        and s_ok = "zone1\<lparr>attr_hvac_mode := HEAT,
          published := [(''panasonic_heat_pump/commands/SetOperationMode'', ''1''),
                        (''panasonic_heat_pump/commands/SetZones'', ''0'')],
          ha_state_writes := 1\<rparr>"] ok
    by (simp add: zone1_fields refusing_def)
  ultimately show ?thesis using run by (simp add: zone1_fields)
qed

section \<open>The derived mode\<close>

text \<open>
  C4, as amended. For a zone id of 1 or 2, \<open>guess_hvac_mode\<close> is \<open>HEAT\<close> exactly when the
  zone is in the cached zone state and \<open>HEAT\<close> is in the cached operating mode, and \<open>OFF\<close>
  otherwise: a function of the two cached flag values and the zone id. A status message
  on the zones topic that decodes replaces the cached zone state, and one on the
  operating-mode topic that decodes replaces the cached operating mode; either handler
  then assigns to the mode attribute the value of that function on the new flag values
  and writes the state once. The mode attribute is a field of its own: a call of
  \<open>async_set_hvac_mode\<close> that returns normally assigns the requested mode to it, whatever
  the cached flag values are.
\<close>

theorem derived_hvac_mode:
  fixes self :: "('m, 'f) HeishaMonZoneClimate"
  assumes zid: "zone_id self = 1 \<or> zone_id self = 2"
  shows "guess_hvac_mode D self =
           Inr (if (if zone_id self = 1 then ZONE1 else ZONE2) \<in> zone_state self \<and>
                   OperatingMode_HEAT D \<in> operating_mode self
                then HEAT else OFF)
       \<and> (from_mqtt pl = Inr zs \<longrightarrow>
            heating_conf_message_received D self
              \<lparr>topic = discovery_prefix self @ ''main/Zones_State'', payload = pl\<rparr> =
            (None, self\<lparr>zone_state := zs,
               attr_hvac_mode :=
                 (if (if zone_id self = 1 then ZONE1 else ZONE2) \<in> zs \<and>
                     OperatingMode_HEAT D \<in> operating_mode self
                  then HEAT else OFF),
               ha_state_writes := Suc (ha_state_writes self)\<rparr>))
       \<and> (OperatingMode_from_mqtt D pl = Inr om \<longrightarrow>
            heating_conf_message_received D self
              \<lparr>topic = discovery_prefix self @ ''main/Operating_Mode_State'', payload = pl\<rparr> =
            (None, self\<lparr>operating_mode := om,
               attr_hvac_mode :=
                 (if (if zone_id self = 1 then ZONE1 else ZONE2) \<in> zone_state self \<and>
                     OperatingMode_HEAT D \<in> om
                  then HEAT else OFF),
               ha_state_writes := Suc (ha_state_writes self)\<rparr>))
       \<and> (fst (async_set_hvac_mode D mqtt self h) = None \<longrightarrow>
            attr_hvac_mode (snd (async_set_hvac_mode D mqtt self h)) = h)"
proof -
  have g: "\<And>s :: ('m, 'f) HeishaMonZoneClimate. zone_id s = zone_id self \<Longrightarrow>
     guess_hvac_mode D s =
       Inr (if (if zone_id self = 1 then ZONE1 else ZONE2) \<in> zone_state s \<and>
               OperatingMode_HEAT D \<in> operating_mode s
            then HEAT else OFF)"
    using from_id_zone [OF zid]
    by (simp add: guess_hvac_mode_def flag_in_single)
  have r: "fst (async_set_hvac_mode D mqtt self h) = None \<Longrightarrow>
     attr_hvac_mode (snd (async_set_hvac_mode D mqtt self h)) = h"
  proof -
    assume n: "fst (async_set_hvac_mode D mqtt self h) = None"
    obtain s' where run: "async_set_hvac_mode D mqtt self h = (None, s')"
      using n by (cases "async_set_hvac_mode D mqtt self h") simp
    from set_hvac_mode_shape [OF run] show ?thesis
      by (auto simp: run)
  qed
  show ?thesis
    using r by (simp add: g heating_conf_message_received_def async_write_ha_state_def)
qed

text \<open>
  After a request for \<open>HEAT\<close> at the initial state of zone 1 the mode attribute is
  \<open>HEAT\<close>, while both cached flag values are still empty and \<open>guess_hvac_mode\<close> gives
  \<open>OFF\<close>.
\<close>

theorem derived_hvac_mode_counterexample:
  "attr_hvac_mode (snd (async_set_hvac_mode spec_definitions accepting zone1 HEAT)) = HEAT \<and>
   guess_hvac_mode spec_definitions
     (snd (async_set_hvac_mode spec_definitions accepting zone1 HEAT)) = Inr OFF"
proof -
  have run: "async_set_hvac_mode spec_definitions accepting zone1 HEAT =
     (None, zone1\<lparr>attr_hvac_mode := HEAT,
        published := [(''panasonic_heat_pump/commands/SetOperationMode'', ''1''),
                      (''panasonic_heat_pump/commands/SetZones'', ''0'')],
        ha_state_writes := 1\<rparr>)"
    by (simp add: async_set_hvac_mode_def new_flags_def publish_operating_mode_def
      publish_zones_def effects zone1_fields spec_definitions_fields from_id_values
      spec_to_mqtt_values to_mqtt_values accepting_def)
  show ?thesis
    by (simp add: run guess_hvac_mode_def flag_in_single from_id_values zone1_fields
        spec_definitions_fields)
qed

theorem derived_hvac_mode_witness:
  "guess_hvac_mode spec_definitions (zone1\<lparr>zone_state := {ZONE1}, operating_mode := {Heat}\<rparr>)
     = Inr HEAT \<and>
   guess_hvac_mode spec_definitions (zone1\<lparr>zone_state := {ZONE2}, operating_mode := {Heat}\<rparr>)
     = Inr OFF \<and>
   heating_conf_message_received spec_definitions (zone1\<lparr>operating_mode := {Heat}\<rparr>)
       \<lparr>topic = ''panasonic_heat_pump/main/Zones_State'', payload = ''2''\<rparr> =
     (None, zone1\<lparr>operating_mode := {Heat}, zone_state := {ZONE1, ZONE2},
        attr_hvac_mode := HEAT, ha_state_writes := 1\<rparr>) \<and>
   heating_conf_message_received spec_definitions
       (zone1\<lparr>zone_state := {ZONE1}, operating_mode := {Heat}, attr_hvac_mode := HEAT\<rparr>)
       \<lparr>topic = ''panasonic_heat_pump/main/Operating_Mode_State'', payload = ''0''\<rparr> =
     (None, zone1\<lparr>zone_state := {ZONE1}, operating_mode := {}, attr_hvac_mode := OFF,
        ha_state_writes := 1\<rparr>) \<and>
   attr_hvac_mode (snd (async_set_hvac_mode spec_definitions accepting
       (zone1\<lparr>zone_state := {ZONE1}, operating_mode := {Heat}, attr_hvac_mode := HEAT\<rparr>) OFF))
     = OFF"
proof -
  let ?a = "zone1\<lparr>zone_state := {ZONE1}, operating_mode := {Heat}\<rparr>"
  let ?b = "zone1\<lparr>zone_state := {ZONE2}, operating_mode := {Heat}\<rparr>"
  let ?c = "zone1\<lparr>operating_mode := {Heat}\<rparr>"
  let ?d = "zone1\<lparr>zone_state := {ZONE1}, operating_mode := {Heat}, attr_hvac_mode := HEAT\<rparr>"
  have ia: "zone_id ?a = 1 \<or> zone_id ?a = 2" and ib: "zone_id ?b = 1 \<or> zone_id ?b = 2"
    and ic: "zone_id ?c = 1 \<or> zone_id ?c = 2" and id: "zone_id ?d = 1 \<or> zone_id ?d = 2"
    by (simp_all add: zone1_fields)
  have n: "fst (async_set_hvac_mode spec_definitions accepting ?d OFF) = None"
    by (simp add: async_set_hvac_mode_def new_flags_def publish_operating_mode_def
      publish_zones_def effects zone1_fields spec_definitions_fields from_id_values
      spec_to_mqtt_values accepting_def Compl_ZONE1)
  show ?thesis
    using derived_hvac_mode [OF id, where D = spec_definitions and mqtt = accepting
        and h = OFF] n
      derived_hvac_mode [OF ia, where D = spec_definitions]
      derived_hvac_mode [OF ib, where D = spec_definitions]
      derived_hvac_mode [OF ic, where D = spec_definitions and pl = "''2''"
        and zs = "{ZONE1, ZONE2}"]
      derived_hvac_mode [OF id, where D = spec_definitions and pl = "''0''" and om = "{}"]
    by (simp add: zone1_fields spec_definitions_fields from_mqtt_values spec_from_mqtt_values)
qed

section \<open>A zones status that does not decode\<close>




section \<open>Setting the temperature\<close>

text \<open>
  C5, as amended. \<open>async_set_temperature\<close> compares the value with nothing. For every
  integer value and either mode it hands one message to the client, on the topic
  \<open>commands/SetZ<id>HeatRequestTemperature\<close> with the decimal text of the value: when the
  client takes it, the call returns and nothing else changes; when the client raises,
  the call raises and nothing changes. The mode only selects the bounds that
  \<open>change_mode\<close> stores: 15, 45 and step 1 for \<open>DIRECT\<close>; -5, 5 and step 1 for
  \<open>COMPENSATION\<close>.
\<close>

theorem set_temperature_unchecked:
  fixes self :: "('m, 'f) HeishaMonZoneClimate"
  shows "(mqtt (discovery_prefix self @ ''commands/SetZ'' @ py_str (zone_id self)
                  @ ''HeatRequestTemperature'') (py_str t) = None \<longrightarrow>
            async_set_temperature mqtt self (Some t) =
              (None, self\<lparr>published := published self
                 @ [(discovery_prefix self @ ''commands/SetZ'' @ py_str (zone_id self)
                       @ ''HeatRequestTemperature'', py_str t)]\<rparr>))
       \<and> (mqtt (discovery_prefix self @ ''commands/SetZ'' @ py_str (zone_id self)
                  @ ''HeatRequestTemperature'') (py_str t) = Some e \<longrightarrow>
            async_set_temperature mqtt self (Some t) = (Some e, self))
       \<and> change_mode self DIRECT i =
            (if i then self else async_write_ha_state self)
              \<lparr>mode := DIRECT, attr_min_temp := 15, attr_max_temp := 45,
                attr_target_temperature_step := 1\<rparr>
       \<and> change_mode self COMPENSATION i =
            (if i then self else async_write_ha_state self)
              \<lparr>mode := COMPENSATION, attr_min_temp := - 5, attr_max_temp := 5,
                attr_target_temperature_step := 1\<rparr>"
  by (simp add: async_set_temperature_def async_publish_def change_mode_def
      async_write_ha_state_def)

text \<open>
  In mode \<open>DIRECT\<close> with maximum 45 the value 46 is published, and in mode
  \<open>COMPENSATION\<close> with maximum 5 the value 6 is published; both calls return normally.
\<close>

theorem set_temperature_unchecked_counterexample:
  "mode zone1 = DIRECT \<and> attr_max_temp zone1 = 45 \<and>
   async_set_temperature accepting zone1 (Some 46) =
     (None, zone1\<lparr>published :=
        [(''panasonic_heat_pump/commands/SetZ1HeatRequestTemperature'', ''46'')]\<rparr>) \<and>
   mode (change_mode zone1 COMPENSATION False) = COMPENSATION \<and>
   attr_max_temp (change_mode zone1 COMPENSATION False) = 5 \<and>
   async_set_temperature accepting (change_mode zone1 COMPENSATION False) (Some 6) =
     (None, (change_mode zone1 COMPENSATION False)\<lparr>published :=
        [(''panasonic_heat_pump/commands/SetZ1HeatRequestTemperature'', ''6'')]\<rparr>)"
  by (simp add: async_set_temperature_def async_publish_def change_mode_def
      async_write_ha_state_def zone1_fields accepting_def py_str_46 py_str_digits)

theorem set_temperature_unchecked_witness:
  "async_set_temperature accepting zone1 (Some 45) =
     (None, zone1\<lparr>published :=
        [(''panasonic_heat_pump/commands/SetZ1HeatRequestTemperature'', ''45'')]\<rparr>) \<and>
   async_set_temperature refusing zone1 (Some 45) = (Some HomeAssistantError, zone1) \<and>
   attr_min_temp (change_mode zone1 COMPENSATION False) = - 5 \<and>
   attr_max_temp (change_mode zone1 COMPENSATION False) = 5"
  using set_temperature_unchecked [of accepting zone1 45]
    set_temperature_unchecked [of refusing zone1 45 HomeAssistantError False]
  by (simp add: zone1_fields accepting_def refusing_def py_str_46 py_str_digits)

section \<open>Changing the mode\<close>

text \<open>
  C9, as amended. \<open>change_mode\<close> always stores the mode and its bounds, and writes the
  state once unless it is called with \<open>initialization=True\<close>. The handler
  \<open>mode_received\<close> decodes payload \<open>0\<close> as \<open>COMPENSATION\<close> and \<open>1\<close> as \<open>DIRECT\<close>, fails its
  assertion on any other payload, and calls \<open>change_mode\<close> only when the decoded mode
  differs from the stored one: a message that carries the stored mode changes nothing
  and writes no state.
\<close>

theorem mode_policy_change:
  fixes self :: "('m, 'f) HeishaMonZoneClimate"
  shows "change_mode self m False =
           self\<lparr>mode := m,
                attr_min_temp := (if m = COMPENSATION then - 5 else 15),
                attr_max_temp := (if m = COMPENSATION then 5 else 45),
                attr_target_temperature_step := 1,
                ha_state_writes := Suc (ha_state_writes self)\<rparr>
       \<and> change_mode self m True =
           self\<lparr>mode := m,
                attr_min_temp := (if m = COMPENSATION then - 5 else 15),
                attr_max_temp := (if m = COMPENSATION then 5 else 45),
                attr_target_temperature_step := 1\<rparr>
       \<and> mode_received self msg =
           (if payload msg = ''0'' then
              (None, if mode self = COMPENSATION then self
                     else change_mode self COMPENSATION False)
            else if payload msg = ''1'' then
              (None, if mode self = DIRECT then self else change_mode self DIRECT False)
            else (Some AssertionError, self))"
  by (auto simp: change_mode_def async_write_ha_state_def mode_received_def)

text \<open>
  The entity starts in mode \<open>DIRECT\<close>; a message with payload \<open>1\<close> leaves it as it is,
  with no state written.
\<close>

theorem mode_policy_change_counterexample:
  "mode zone1 = DIRECT \<and>
   mode_received zone1 \<lparr>topic = ''panasonic_heat_pump/main/Heating_Mode'', payload = ''1''\<rparr>
     = (None, zone1) \<and>
   ha_state_writes (snd (mode_received zone1
      \<lparr>topic = ''panasonic_heat_pump/main/Heating_Mode'', payload = ''1''\<rparr>)) = ha_state_writes zone1"
  by (simp add: mode_received_def zone1_fields)

theorem mode_policy_change_witness:
  "mode_received zone1 \<lparr>topic = ''panasonic_heat_pump/main/Heating_Mode'', payload = ''0''\<rparr> =
     (None, zone1\<lparr>mode := COMPENSATION, attr_min_temp := - 5, attr_max_temp := 5,
        attr_target_temperature_step := 1, ha_state_writes := 1\<rparr>) \<and>
   mode_received zone1 \<lparr>topic = ''panasonic_heat_pump/main/Heating_Mode'', payload = ''2''\<rparr> =
     (Some AssertionError, zone1)"
  using mode_policy_change [of zone1 COMPENSATION
      "\<lparr>topic = ''panasonic_heat_pump/main/Heating_Mode'', payload = ''0''\<rparr>"]
    mode_policy_change [of zone1 COMPENSATION
      "\<lparr>topic = ''panasonic_heat_pump/main/Heating_Mode'', payload = ''2''\<rparr>"]
  by (simp add: zone1_fields)

section \<open>The wire codecs\<close>

text \<open>
  C8. The codec of \<open>ZoneState\<close> takes each of the wire values 0, 1 and 2 to a zone state
  that encodes back to it, and every zone state but the empty one encodes to a wire
  value that decodes back to it. The codec of \<open>OperatingMode\<close> modelled from the
  specification does the same over the wire values 0, 1 and 2 and over the three mode
  sets of its map, whatever mode set stands third in the map, as long as it is neither
  of the first two.
\<close>

theorem codec_round_trip:
  "(v \<in> {0, 1, 2} \<longrightarrow> (\<exists>z. from_mqtt (py_str v) = Inr z \<and> to_mqtt z = Inr (py_str v)))
   \<and> (z \<noteq> {} \<longrightarrow> (\<exists>p. to_mqtt z = Inr p \<and> from_mqtt p = Inr z))
   \<and> (v \<in> {0, 1, 2} \<and> third \<noteq> {} \<and> third \<noteq> {Heat} \<longrightarrow>
        (\<exists>m. spec_from_mqtt third (py_str v) = Inr m \<and>
             spec_to_mqtt third m = Inr (py_str v)))
   \<and> (m \<in> {{}, {Heat}, third} \<and> third \<noteq> {} \<and> third \<noteq> {Heat} \<longrightarrow>
        (\<exists>p. spec_to_mqtt third m = Inr p \<and> spec_from_mqtt third p = Inr m))"
proof (intro conjI impI)
  assume "v \<in> {0, 1, 2}"
  then show "\<exists>z. from_mqtt (py_str v) = Inr z \<and> to_mqtt z = Inr (py_str v)"
    by (auto simp: py_str_digits from_mqtt_values to_mqtt_values)
next
  assume "z \<noteq> {}"
  then show "\<exists>p. to_mqtt z = Inr p \<and> from_mqtt p = Inr z"
    using ZoneState_cases [of z] by (auto simp: from_mqtt_values to_mqtt_values)
next
  assume a: "v \<in> {0, 1, 2} \<and> third \<noteq> {} \<and> third \<noteq> {Heat}"
  then have "v = 0 \<or> v = 1 \<or> v = 2" by simp
  then show "\<exists>m. spec_from_mqtt third (py_str v) = Inr m \<and>
                 spec_to_mqtt third m = Inr (py_str v)"
    using a spec_to_mqtt_third [of third]
    by (auto simp: py_str_digits spec_from_mqtt_values spec_to_mqtt_values)
next
  assume a: "m \<in> {{}, {Heat}, third} \<and> third \<noteq> {} \<and> third \<noteq> {Heat}"
  then have "m = {} \<or> m = {Heat} \<or> m = third" by simp
  then show "\<exists>p. spec_to_mqtt third m = Inr p \<and> spec_from_mqtt third p = Inr m"
    using a spec_to_mqtt_third [of third]
    by (auto simp: spec_from_mqtt_values spec_to_mqtt_values)
qed

theorem codec_round_trip_witness:
  "from_mqtt ''2'' = Inr {ZONE1, ZONE2} \<and> to_mqtt {ZONE1, ZONE2} = Inr ''2'' \<and>
   spec_from_mqtt {Other} ''2'' = Inr {Other} \<and> spec_to_mqtt {Other} {Other} = Inr ''2'' \<and>
   spec_from_mqtt {Heat, Other} ''1'' = Inr {Heat} \<and>
   spec_to_mqtt {Heat, Other} {Heat} = Inr ''1''"
proof -
  have o: "{Other} \<noteq> {}" "{Other} \<noteq> {Heat}" "{Heat, Other} \<noteq> {}" "{Heat, Other} \<noteq> {Heat}"
    by auto
  show ?thesis
    using codec_round_trip [of 2 "{ZONE1, ZONE2}" "{Other}" "{Other}"]
      codec_round_trip [of 1 "{ZONE1}" "{Heat, Other}" "{Heat}"] o
    by (auto simp: py_str_digits from_mqtt_values to_mqtt_values spec_from_mqtt_values)
qed

section \<open>What a request leaves alone\<close>

text \<open>
  C10. \<open>async_set_hvac_mode\<close> leaves the cached zone state and the cached operating mode
  as they are, whatever the requested mode, the client and the outcome, so that a second
  identical request computes the same new flag values as the first. Nor do
  \<open>async_set_temperature\<close>, \<open>change_mode\<close>, \<open>mode_received\<close> and the two temperature
  handlers assign them. The status handler can change the zone state only on a message
  of the zones topic, and the operating mode only on a message of the operating-mode
  topic.
\<close>

theorem cached_flags_frame:
  fixes self :: "('m, 'f) HeishaMonZoneClimate"
  shows "zone_state (snd (async_set_hvac_mode D mqtt self h)) = zone_state self
       \<and> operating_mode (snd (async_set_hvac_mode D mqtt self h)) = operating_mode self
       \<and> new_flags D (snd (async_set_hvac_mode D mqtt self h)) h = new_flags D self h
       \<and> zone_state (snd (async_set_temperature mqtt self t)) = zone_state self
       \<and> operating_mode (snd (async_set_temperature mqtt self t)) = operating_mode self
       \<and> zone_state (change_mode self m i) = zone_state self
       \<and> operating_mode (change_mode self m i) = operating_mode self
       \<and> zone_state (snd (mode_received self msg)) = zone_state self
       \<and> operating_mode (snd (mode_received self msg)) = operating_mode self
       \<and> zone_state (snd (current_temperature_message_received py_float self msg))
            = zone_state self
       \<and> operating_mode (snd (current_temperature_message_received py_float self msg))
            = operating_mode self
       \<and> zone_state (snd (target_temperature_message_received py_float self msg))
            = zone_state self
       \<and> operating_mode (snd (target_temperature_message_received py_float self msg))
            = operating_mode self
       \<and> (topic msg \<noteq> discovery_prefix self @ ''main/Zones_State'' \<longrightarrow>
            zone_state (snd (heating_conf_message_received D self msg)) = zone_state self)
       \<and> (topic msg \<noteq> discovery_prefix self @ ''main/Operating_Mode_State'' \<longrightarrow>
            operating_mode (snd (heating_conf_message_received D self msg))
              = operating_mode self)"
proof -
  have a: "new_flags D (snd (async_set_hvac_mode D mqtt self h)) h = new_flags D self h"
    by (simp only: new_flags_def set_hvac_mode_flags)
  have b: "zone_state (snd (async_set_temperature mqtt self t)) = zone_state self"
    "operating_mode (snd (async_set_temperature mqtt self t)) = operating_mode self"
    by (simp_all add: async_set_temperature_def async_publish_def Let_def split: option.split)
  have c: "zone_state (change_mode self m i) = zone_state self"
    "operating_mode (change_mode self m i) = operating_mode self"
    by (simp_all add: change_mode_def async_write_ha_state_def Let_def)
  have d: "zone_state (snd (mode_received self msg)) = zone_state self"
    "operating_mode (snd (mode_received self msg)) = operating_mode self"
    by (simp_all add: mode_received_def change_mode_def async_write_ha_state_def Let_def)
  have e: "zone_state (snd (current_temperature_message_received py_float self msg))
             = zone_state self"
    "operating_mode (snd (current_temperature_message_received py_float self msg))
       = operating_mode self"
    "zone_state (snd (target_temperature_message_received py_float self msg))
       = zone_state self"
    "operating_mode (snd (target_temperature_message_received py_float self msg))
       = operating_mode self"
    by (simp_all add: current_temperature_message_received_def
        target_temperature_message_received_def async_write_ha_state_def split: sum.splits)
  have f: "topic msg \<noteq> discovery_prefix self @ ''main/Zones_State'' \<Longrightarrow>
      zone_state (snd (heating_conf_message_received D self msg)) = zone_state self"
    by (simp add: heating_conf_message_received_def async_write_ha_state_def
        split: sum.splits)
  have g: "topic msg \<noteq> discovery_prefix self @ ''main/Operating_Mode_State'' \<Longrightarrow>
      operating_mode (snd (heating_conf_message_received D self msg)) = operating_mode self"
    by (simp add: heating_conf_message_received_def async_write_ha_state_def
        split: sum.splits)
  show ?thesis
    using a b c d e f g by (simp add: set_hvac_mode_flags)
qed

theorem cached_flags_frame_witness:
  "zone_state (snd (async_set_hvac_mode spec_definitions accepting zone1 HEAT)) = {} \<and>
   operating_mode (snd (async_set_hvac_mode spec_definitions accepting zone1 HEAT)) = {} \<and>
   attr_hvac_mode (snd (async_set_hvac_mode spec_definitions accepting zone1 HEAT)) = HEAT \<and>
   zone_state (snd (heating_conf_message_received spec_definitions zone1
      \<lparr>topic = ''panasonic_heat_pump/main/Operating_Mode_State'', payload = ''1''\<rparr>)) = {} \<and>
   operating_mode (snd (heating_conf_message_received spec_definitions zone1
      \<lparr>topic = ''panasonic_heat_pump/main/Operating_Mode_State'', payload = ''1''\<rparr>)) = {Heat}"
proof -
  have m: "attr_hvac_mode (snd (async_set_hvac_mode spec_definitions accepting zone1 HEAT)) = HEAT"
    by (simp add: async_set_hvac_mode_def new_flags_def publish_operating_mode_def
      publish_zones_def effects zone1_fields spec_definitions_fields from_id_values
      spec_to_mqtt_values to_mqtt_values accepting_def)
  have o: "operating_mode (snd (heating_conf_message_received spec_definitions zone1
      \<lparr>topic = ''panasonic_heat_pump/main/Operating_Mode_State'', payload = ''1''\<rparr>)) = {Heat}"
    by (simp add: heating_conf_message_received_def guess_hvac_mode_def from_id_values
      zone1_fields spec_definitions_fields spec_from_mqtt_values async_write_ha_state_def)
  show ?thesis
    using cached_flags_frame [where D = spec_definitions and mqtt = accepting and self = zone1
        and h = HEAT
        and msg = "\<lparr>topic = ''panasonic_heat_pump/main/Operating_Mode_State'', payload = ''1''\<rparr>"]
      m o
    by (simp add: zone1_fields)
qed

end
